theory Spec2Isabelle
  imports Main "HOL-Library.Word"
begin

section \<open>The wallet hook of the station extension\<close>

text \<open>
  A shallow embedding of \<^verbatim>\<open>src/auth/hooks/useAuth.ts\<close>. The hook closes over the session
  wallet (a recoil atom), the chain registry \<^verbatim>\<open>networks\<close>, the LCD client and a handful of
  imported modules. Every function of the hook becomes a HOL function that takes those
  dependencies as one record \<open>D\<close> and the session wallet as an argument; a \<^verbatim>\<open>throw\<close> (or a
  rejected promise: every \<^verbatim>\<open>await\<close> is sequential) is the left injection of a sum.
\<close>

subsection \<open>Errors\<close>

text \<open>
  The hook throws \<^verbatim>\<open>new Error(msg)\<close> and \<^verbatim>\<open>new PasswordError(msg)\<close>; the runtime throws
  \<^verbatim>\<open>TypeError\<close> when a property of \<^verbatim>\<open>undefined\<close> is read or \<^verbatim>\<open>Buffer.from\<close> gets no string.
\<close>

datatype error = Error string | PasswordError string | TypeError string

subsection \<open>JavaScript builtins\<close>

text \<open>
  A number is an integer or \<^verbatim>\<open>NaN\<close>; the coin types at stake are far below \<open>2^53\<close>, where
  the doubles of JavaScript are exact.
\<close>

datatype number = NaN | Num int

text \<open>
  \<^verbatim>\<open>parseInt(string)\<close> with no radix, after ECMAScript: leading white space is dropped, a
  sign is read, a \<^verbatim>\<open>0x\<close> prefix selects radix 16, the longest prefix of digits is the value,
  and there is no value (\<^verbatim>\<open>NaN\<close>) when that prefix is empty. Characters are the ASCII ones.
\<close>

definition StrWhiteSpaceChar :: "char \<Rightarrow> bool" where
  "StrWhiteSpaceChar c =
     (c \<in> set [CHR 0x09, CHR 0x0A, CHR 0x0B, CHR 0x0C, CHR 0x0D, CHR 0x20])"

definition digit_value :: "char \<Rightarrow> nat option" where
  "digit_value c =
     (let n = (of_char c :: nat) in
      if 48 \<le> n \<and> n \<le> 57 then Some (n - 48)
      else if 97 \<le> n \<and> n \<le> 102 then Some (n - 87)
      else if 65 \<le> n \<and> n \<le> 70 then Some (n - 55)
      else None)"

definition radix_digit :: "nat \<Rightarrow> char \<Rightarrow> bool" where
  "radix_digit R c = (case digit_value c of None \<Rightarrow> False | Some d \<Rightarrow> d < R)"

definition mathint :: "nat \<Rightarrow> string \<Rightarrow> int" where
  "mathint R Z =
     foldl (\<lambda>acc c. acc * int R + int (case digit_value c of None \<Rightarrow> 0 | Some d \<Rightarrow> d)) 0 Z"

definition parseInt :: "string \<Rightarrow> number" where
  "parseInt inputString =
     (let S = dropWhile StrWhiteSpaceChar inputString;
          sgn = (if S \<noteq> [] \<and> hd S = CHR ''-'' then - 1 else (1::int));
          S1 = (if S \<noteq> [] \<and> (hd S = CHR ''+'' \<or> hd S = CHR ''-'') then tl S else S);
          hex = (take 2 S1 = ''0x'' \<or> take 2 S1 = ''0X'');
          R = (if hex then 16 else 10);
          S2 = (if hex then drop 2 S1 else S1);
          Z = takeWhile (radix_digit R) S2
      in if Z = [] then NaN else Num (sgn * mathint R Z))"

text \<open>
  \<^verbatim>\<open>Buffer.from(x, "hex")\<close>: a buffer decoded from a hex string, kept as the string it was
  decoded from; \<^verbatim>\<open>undefined\<close> is a \<^verbatim>\<open>TypeError\<close>.
\<close>

datatype buffer = HexBuffer string

definition Buffer_from :: "string option \<Rightarrow> error + buffer" where
  "Buffer_from x =
     (case x of
        None \<Rightarrow> Inl (TypeError ''The first argument must be of type string or an instance of Buffer, ArrayBuffer, or Array or an Array-like Object. Received undefined'')
      | Some s \<Rightarrow> Inr (HexBuffer s))"

text \<open>\<^verbatim>\<open>!x\<close> for \<^verbatim>\<open>x: string | undefined\<close>: the empty string is falsy too.\<close>

definition falsy :: "string option \<Rightarrow> bool" where
  "falsy x = (case x of None \<Rightarrow> True | Some s \<Rightarrow> s = [])"

text \<open>\<^verbatim>\<open>x || 0\<close> for \<^verbatim>\<open>x: number | undefined\<close> (an integer read from stored JSON).\<close>

definition or_zero :: "int option \<Rightarrow> int" where
  "or_zero x = (case x of None \<Rightarrow> 0 | Some i \<Rightarrow> i)"

subsection \<open>Data\<close>

text \<open>
  A wallet object, stored or connected. JavaScript objects are bags of optional fields: a
  field that is absent is \<open>None\<close>, \<open>False\<close> or the empty map here. \<open>address\<close> is present on
  the older stored records only (\<^verbatim>\<open>"address" in storedWallet\<close>); \<open>ledger\<close> and \<open>multisig\<close>
  are the marker fields \<^verbatim>\<open>ledger: true\<close> and \<^verbatim>\<open>multisig: true\<close>. The encrypted payload of a
  stored record is never read by the hook and is left out.
\<close>

record wallet =
  name :: string
  address :: "string option"
  words :: "string \<rightharpoonup> string"
  pubkey :: "string \<rightharpoonup> string"
  ledger :: bool
  multisig :: bool
  index :: "int option"
  bluetooth :: bool
  lock :: bool

text \<open>
  What \<^verbatim>\<open>getDecryptedKey\<close> yields: an object with a \<^verbatim>\<open>seed\<close> field, or a table from coin-type
  tags to hex private keys (\<^verbatim>\<open>"seed" in pk\<close> tells them apart).
\<close>

datatype decrypted_key =
    SeedRecord string bool "int option"
  | RawKeyRecord "string \<rightharpoonup> string"

datatype transport = createBleTransport

text \<open>
  The keys the hook builds. \<^verbatim>\<open>new SeedKey({seed, coinType, index})\<close> and \<^verbatim>\<open>new RawKey(buf)\<close>
  are kept as the constructor call; the hook uses each key at once, so a constructor that
  throws is a failure of the operation applied to the key. A ledger key is whatever
  \<^verbatim>\<open>LedgerKey.create\<close> returned for its options.
\<close>

datatype key =
    SeedKey buffer number int
  | RawKey buffer
  | LedgerKey "transport option" "int option" string

datatype SignMode =
    SIGN_MODE_UNSPECIFIED
  | SIGN_MODE_DIRECT
  | SIGN_MODE_TEXTUAL
  | SIGN_MODE_LEGACY_AMINO_JSON

record CreateTxOptions =
  chainID :: string
  msgs :: "string list"
  memo :: "string option"
  signMode :: "SignMode option"

record Tx =
  auth_info :: string
  body :: string

datatype SignDoc = SignDoc string int int string string

record account_info =
  getAccountNumber :: int
  getSequenceNumber :: int

record network =
  coinType :: string
  prefix :: string

datatype coin_type = CT330 | CT118

fun coin_tag :: "coin_type \<Rightarrow> string" where
  "coin_tag CT330 = ''330''"
| "coin_tag CT118 = ''118''"

text \<open>The result of \<^verbatim>\<open>testPassword\<close>, and so of \<^verbatim>\<open>validatePassword\<close>: a boolean or a message.\<close>

datatype js_value = JBool bool | JString string

record signed_bytes =
  recid :: int
  signature :: string
  public_key :: "string option"

text \<open>\<^verbatim>\<open>x ?? ""\<close> for \<^verbatim>\<open>x: string | undefined\<close>.\<close>

definition or_empty :: "string option \<Rightarrow> string" where
  "or_empty x = (case x of None \<Rightarrow> [] | Some s \<Rightarrow> s)"

type_synonym bytes = "8 word list"

subsection \<open>The dependencies of the hook\<close>

text \<open>
  None of these is defined in the hook: they are the modules it imports and the values it
  obtains from other hooks, taken as parameters. \<open>'sig\<close> is a \<^verbatim>\<open>SignatureV2\<close>, \<open>'stx\<close> a signed
  transaction, \<open>'res\<close> a broadcast result and \<open>'net\<close> the state of the chain the LCD client
  submits to, which \<^verbatim>\<open>broadcastSync\<close> reads and changes.

  \<^item> \<open>is_local\<close>, \<open>is_ledger\<close>, \<open>is_multisig\<close>: \<^verbatim>\<open>is.local\<close>, \<^verbatim>\<open>is.ledger\<close>, \<^verbatim>\<open>is.multisig\<close> of
    \<^verbatim>\<open>../scripts/is\<close>;
  \<^item> \<open>getStoredWallet\<close>, \<open>getDecryptedKey\<close>, \<open>testPassword\<close>: of \<^verbatim>\<open>../scripts/keystore\<close>
    (\<open>getDecryptedKey\<close> may throw, or return nothing);
  \<^item> \<open>wordsFromAddress\<close>: of \<^verbatim>\<open>utils/bech32\<close>; decoding an address may throw;
  \<^item> \<open>networks\<close>: the table of \<^verbatim>\<open>useNetwork()\<close>, from chain id to coin type and prefix;
  \<^item> \<open>LedgerKey_create\<close>: \<^verbatim>\<open>LedgerKey.create({transport, index, coinType: Number(tag)})\<close>, given
    the tag;
  \<^item> \<open>createSignatureAmino\<close>, \<open>publicKey_key\<close> (\<^verbatim>\<open>key.publicKey.key\<close>), \<open>ecdsaSign\<close>,
    \<open>publicKey_toAmino_value\<close> (\<^verbatim>\<open>key.publicKey?.toAmino().value\<close>): the operations of a key;
  \<^item> \<open>toString_base64\<close>: \<^verbatim>\<open>Buffer.from(signature).toString("base64")\<close>;
  \<^item> \<open>accountInfo\<close>: \<^verbatim>\<open>lcd.auth.accountInfo\<close>; \<open>createAndSignTx\<close>:
    \<^verbatim>\<open>lcd.wallet(key).createAndSignTx\<close>; \<open>broadcastSync\<close>: \<^verbatim>\<open>lcd.tx.broadcastSync\<close>;
    \<open>isTxError\<close> and \<open>raw_log\<close>: the test and the field of a broadcast result.
\<close>

record ('sig, 'stx, 'res, 'net) deps =
  is_local :: "wallet option \<Rightarrow> bool"
  is_ledger :: "wallet option \<Rightarrow> bool"
  is_multisig :: "wallet \<Rightarrow> bool"
  getStoredWallet :: "string \<Rightarrow> error + wallet"
  getDecryptedKey :: "string \<Rightarrow> string \<Rightarrow> error + decrypted_key option"
  testPassword :: "string \<Rightarrow> string \<Rightarrow> error + js_value"
  wordsFromAddress :: "string \<Rightarrow> error + string"
  networks :: "string \<rightharpoonup> network"
  LedgerKey_create :: "transport option \<Rightarrow> int option \<Rightarrow> string \<Rightarrow> error + key"
  createSignatureAmino :: "key \<Rightarrow> SignDoc \<Rightarrow> error + 'sig"
  publicKey_key :: "key \<Rightarrow> error + string"
  ecdsaSign :: "key \<Rightarrow> bytes \<Rightarrow> error + (bytes option \<times> int)"
  publicKey_toAmino_value :: "key \<Rightarrow> string option"
  toString_base64 :: "bytes \<Rightarrow> string"
  accountInfo :: "string \<Rightarrow> error + account_info option"
  createAndSignTx :: "key \<Rightarrow> CreateTxOptions \<Rightarrow> error + 'stx"
  broadcastSync :: "'stx \<Rightarrow> string \<Rightarrow> 'net \<Rightarrow> (error + 'res) \<times> 'net"
  isTxError :: "'res \<Rightarrow> bool"
  raw_log :: "'res \<Rightarrow> string"

text \<open>Sequencing: the first throw ends the function.\<close>

definition andThen :: "error + 'a \<Rightarrow> ('a \<Rightarrow> error + 'b) \<Rightarrow> error + 'b" where
  "andThen r f = (case r of Inl e \<Rightarrow> Inl e | Inr x \<Rightarrow> f x)"

text \<open>\<^verbatim>\<open>networks[chainID].coinType\<close>: reading a field of \<^verbatim>\<open>undefined\<close> throws.\<close>

definition networks_coinType ::
  "('sig, 'stx, 'res, 'net) deps \<Rightarrow> string \<Rightarrow> error + string" where
  "networks_coinType D cid =
     (case networks D cid of
        None \<Rightarrow> Inl (TypeError ''Cannot read properties of undefined (reading coinType)'')
      | Some n \<Rightarrow> Inr (coinType n))"

subsection \<open>Session: connect and the connected wallet\<close>

text \<open>
  \<open>walletState\<close> is the recoil atom (\<^verbatim>\<open>setWallet\<close> writes it); \<open>localStorage_wallet\<close> is what
  \<^verbatim>\<open>storeWallet\<close> persists. In \<^verbatim>\<open>connect\<close> the branch of a record with an \<^verbatim>\<open>address\<close> decodes the
  address first and tests the lock flag after, as the source does.
\<close>

record session =
  walletState :: "wallet option"
  localStorage_wallet :: "wallet option"


text \<open>
  \<^verbatim>\<open>connectLedger\<close>; the caller supplies the defaults \<^verbatim>\<open>index = 0\<close>, \<^verbatim>\<open>bluetooth = false\<close> and
  \<^verbatim>\<open>name = "Ledger"\<close>. \<^verbatim>\<open>addWallet\<close> adds the wallet to the stored ones, which this development
  reads through \<open>getStoredWallet\<close> only.
\<close>

definition connectLedger ::
  "(string \<rightharpoonup> string) \<Rightarrow> (string \<rightharpoonup> string) \<Rightarrow> int \<Rightarrow> bool \<Rightarrow> string \<Rightarrow> session
     \<Rightarrow> (error + unit) \<times> session" where
  "connectLedger wds pk i bt nm s =
     (let w = \<lparr>name = nm, address = None, words = wds, pubkey = pk, ledger = True,
                multisig = False, index = Some i, bluetooth = bt, lock = False\<rparr>
      in (Inr (), \<lparr>walletState = Some w, localStorage_wallet = Some w\<rparr>))"

definition connectedWallet :: "('sig, 'stx, 'res, 'net) deps \<Rightarrow> wallet option \<Rightarrow> wallet option" where
  "connectedWallet D w = (if \<not> is_local D w then None else w)"

definition getConnectedWallet :: "('sig, 'stx, 'res, 'net) deps \<Rightarrow> wallet option \<Rightarrow> error + wallet" where
  "getConnectedWallet D w =
     (case connectedWallet D w of
        None \<Rightarrow> Inl (Error ''Wallet is not defined'')
      | Some c \<Rightarrow> Inr c)"

subsection \<open>Helpers\<close>

definition getKey ::
  "('sig, 'stx, 'res, 'net) deps \<Rightarrow> wallet option \<Rightarrow> string \<Rightarrow> error + decrypted_key option" where
  "getKey D w password =
     andThen (getConnectedWallet D w) (\<lambda>c. getDecryptedKey D (name c) password)"

definition getLedgerKey ::
  "('sig, 'stx, 'res, 'net) deps \<Rightarrow> wallet option \<Rightarrow> string \<Rightarrow> error + key" where
  "getLedgerKey D w tag =
     (if \<not> is_ledger D w then Inl (Error ''Ledger device is not connected'')
      else
        (case w of
           None \<Rightarrow> Inl (TypeError ''Cannot destructure property of undefined (reading index)'')
         | Some wl \<Rightarrow>
             LedgerKey_create D (if bluetooth wl then Some createBleTransport else None)
               (index wl) tag))"

subsection \<open>Form\<close>

definition validatePassword ::
  "('sig, 'stx, 'res, 'net) deps \<Rightarrow> wallet option \<Rightarrow> string \<Rightarrow> error + js_value" where
  "validatePassword D w password =
     (case andThen (getConnectedWallet D w) (\<lambda>c. testPassword D (name c) password) of
        Inl e \<Rightarrow> Inr (JString ''Incorrect password'')
      | Inr v \<Rightarrow> Inr v)"

subsection \<open>Transactions and signatures\<close>

text \<open>
  The coin type of the seed key that \<^verbatim>\<open>createSignature\<close> and \<^verbatim>\<open>sign\<close> build is written out in
  both: \<^verbatim>\<open>pk.legacy && parseInt(c) === 330 ? 118 : parseInt(c)\<close>.
\<close>

definition createSignature ::
  "('sig, 'stx, 'res, 'net) deps \<Rightarrow> wallet option \<Rightarrow> Tx \<Rightarrow> string \<Rightarrow> string \<Rightarrow> string
     \<Rightarrow> error + 'sig" where
  "createSignature D w tx cid addr password =
     (case w of
        None \<Rightarrow> Inl (Error ''Wallet is not defined'')
      | Some _ \<Rightarrow>
          andThen (accountInfo D addr) (\<lambda>ai.
            case ai of
              None \<Rightarrow> Inl (Error ''Couldn't retrieve account info'')
            | Some info \<Rightarrow>
                (let doc = SignDoc cid (getAccountNumber info) (getSequenceNumber info)
                             (auth_info tx) (body tx) in
                 if is_ledger D w then
                   andThen (networks_coinType D cid) (\<lambda>c.
                   andThen (getLedgerKey D w c) (\<lambda>k.
                     createSignatureAmino D k doc))
                 else
                   andThen (getKey D w password) (\<lambda>pk.
                     case pk of
                       None \<Rightarrow> Inl (PasswordError ''Incorrect password'')
                     | Some (SeedRecord seed legacy idx) \<Rightarrow>
                         andThen (Buffer_from (Some seed)) (\<lambda>buf.
                         andThen (networks_coinType D cid) (\<lambda>c.
                           createSignatureAmino D
                             (SeedKey buf
                                (if legacy \<and> parseInt c = Num 330 then Num 118 else parseInt c)
                                (or_zero idx))
                             doc))
                     | Some (RawKeyRecord m) \<Rightarrow>
                         andThen (networks_coinType D cid) (\<lambda>c.
                           if falsy (m c) then Inl (PasswordError ''Incorrect password'')
                           else
                             andThen (Buffer_from (Some (or_empty (m c)))) (\<lambda>buf.
                               createSignatureAmino D (RawKey buf) doc))))))"

text \<open>
  \<^verbatim>\<open>getPubkey\<close> takes \<^verbatim>\<open>coinType: "330" | "118"\<close>; its seed key has
  \<^verbatim>\<open>pk.legacy ? 118 : parseInt(coinType)\<close>.
\<close>

definition getPubkey ::
  "('sig, 'stx, 'res, 'net) deps \<Rightarrow> wallet option \<Rightarrow> coin_type \<Rightarrow> string \<Rightarrow> error + string" where
  "getPubkey D w ct password =
     (case w of
        None \<Rightarrow> Inl (Error ''Wallet is not defined'')
      | Some _ \<Rightarrow>
          if is_ledger D w then
            andThen (getLedgerKey D w (coin_tag ct)) (\<lambda>k. publicKey_key D k)
          else
            andThen (getKey D w password) (\<lambda>pk.
              case pk of
                None \<Rightarrow> Inl (PasswordError ''Incorrect password'')
              | Some (SeedRecord seed legacy idx) \<Rightarrow>
                  andThen (Buffer_from (Some seed)) (\<lambda>buf.
                    publicKey_key D
                      (SeedKey buf (if legacy then Num 118 else parseInt (coin_tag ct))
                         (or_zero idx)))
              | Some (RawKeyRecord m) \<Rightarrow>
                  if falsy (m (coin_tag ct)) then Inl (PasswordError ''Incorrect password'')
                  else
                    andThen (Buffer_from (Some (or_empty (m (coin_tag ct))))) (\<lambda>buf.
                      publicKey_key D (RawKey buf))))"

text \<open>
  \<^verbatim>\<open>sign\<close>: \<^verbatim>\<open>{...txOptions, signMode: m}\<close> is the record update; the raw-key branch hands
  \<^verbatim>\<open>txOptions\<close> on as it is.
\<close>

definition sign ::
  "('sig, 'stx, 'res, 'net) deps \<Rightarrow> wallet option \<Rightarrow> CreateTxOptions \<Rightarrow> string
     \<Rightarrow> SignMode option \<Rightarrow> error + 'stx" where
  "sign D w txOptions password sm =
     (case w of
        None \<Rightarrow> Inl (Error ''Wallet is not defined'')
      | Some _ \<Rightarrow>
          if is_ledger D w then
            andThen (networks_coinType D (chainID txOptions)) (\<lambda>c.
            andThen (getLedgerKey D w c) (\<lambda>k.
              createAndSignTx D k (txOptions\<lparr>signMode := Some SIGN_MODE_LEGACY_AMINO_JSON\<rparr>)))
          else
            andThen (getKey D w password) (\<lambda>pk.
              case pk of
                None \<Rightarrow> Inl (PasswordError ''Incorrect password'')
              | Some (SeedRecord seed legacy idx) \<Rightarrow>
                  andThen (Buffer_from (Some seed)) (\<lambda>buf.
                  andThen (networks_coinType D (chainID txOptions)) (\<lambda>c.
                    createAndSignTx D
                      (SeedKey buf
                         (if legacy \<and> parseInt c = Num 330 then Num 118 else parseInt c)
                         (or_zero idx))
                      (txOptions\<lparr>signMode := sm\<rparr>)))
              | Some (RawKeyRecord m) \<Rightarrow>
                  andThen (networks_coinType D (chainID txOptions)) (\<lambda>c.
                    if falsy (m c) then Inl (PasswordError ''Incorrect password'')
                    else
                      andThen (Buffer_from (Some (or_empty (m c)))) (\<lambda>buf.
                        createAndSignTx D (RawKey buf) txOptions))))"

text \<open>What both branches of \<^verbatim>\<open>signBytes\<close> do with the key once it is built.\<close>

definition ecdsaSign_result ::
  "('sig, 'stx, 'res, 'net) deps \<Rightarrow> key \<Rightarrow> bytes \<Rightarrow> error + signed_bytes" where
  "ecdsaSign_result D k bs =
     andThen (ecdsaSign D k bs) (\<lambda>(sg, r).
       case sg of
         None \<Rightarrow> Inl (Error ''Signature is undefined'')
       | Some sb \<Rightarrow>
           Inr \<lparr>recid = r, signature = toString_base64 D sb,
                public_key = publicKey_toAmino_value D k\<rparr>)"

definition signBytes ::
  "('sig, 'stx, 'res, 'net) deps \<Rightarrow> wallet option \<Rightarrow> bytes \<Rightarrow> string \<Rightarrow> error + signed_bytes" where
  "signBytes D w bs password =
     (case w of
        None \<Rightarrow> Inl (Error ''Wallet is not defined'')
      | Some _ \<Rightarrow>
          if is_ledger D w then Inl (Error ''Ledger can not sign arbitrary data'')
          else
            andThen (getKey D w password) (\<lambda>pk.
              case pk of
                None \<Rightarrow> Inl (PasswordError ''Incorrect password'')
              | Some (SeedRecord seed legacy idx) \<Rightarrow>
                  andThen (Buffer_from (Some seed)) (\<lambda>buf.
                    ecdsaSign_result D
                      (SeedKey buf (if legacy then Num 118 else Num 330) (or_zero idx)) bs)
              | Some (RawKeyRecord m) \<Rightarrow>
                  andThen (Buffer_from (m ''330'')) (\<lambda>buf.
                    ecdsaSign_result D (RawKey buf) bs)))"

text \<open>\<^verbatim>\<open>post\<close> threads the state of the chain through the one call of \<^verbatim>\<open>broadcastSync\<close>.\<close>

definition post ::
  "('sig, 'stx, 'res, 'net) deps \<Rightarrow> wallet option \<Rightarrow> CreateTxOptions \<Rightarrow> string
     \<Rightarrow> SignMode option \<Rightarrow> 'net \<Rightarrow> (error + 'res) \<times> 'net" where
  "post D w txOptions password sm net =
     (case w of
        None \<Rightarrow> (Inl (Error ''Wallet is not defined''), net)
      | Some _ \<Rightarrow>
          (case sign D w txOptions password sm of
             Inl e \<Rightarrow> (Inl e, net)
           | Inr signedTx \<Rightarrow>
               (case broadcastSync D signedTx (chainID txOptions) net of
                  (Inl e, net') \<Rightarrow> (Inl e, net')
                | (Inr result, net') \<Rightarrow>
                    (if isTxError D result then Inl (Error (raw_log D result))
                     else Inr result, net'))))"

subsection \<open>The coin type the specification asks for\<close>

text \<open>
  The specification's rule for a seed record, in its words: the effective coin type is 118
  when \<open>legacy\<close> is true and the requested coin type is the default 330; otherwise the
  requested coin type is used unchanged.
\<close>

definition spec_effective_coin_type :: "bool \<Rightarrow> number \<Rightarrow> number" where
  "spec_effective_coin_type legacy requested =
     (if legacy \<and> requested = Num 330 then Num 118 else requested)"

subsection \<open>A concrete environment\<close>

text \<open>
  \<^verbatim>\<open>../scripts/is\<close> is not part of the sources at hand, so the three predicates below stand
  in for it here. They are used for the concrete environment only: every general statement
  of this development takes the predicates as the parameters \<open>is_local\<close>, \<open>is_ledger\<close> and
  \<open>is_multisig\<close> of \<open>D\<close>.
\<close>

text \<open>
  Modelled from the spec: \<^verbatim>\<open>is.ledger\<close> of the absent \<^verbatim>\<open>../scripts/is\<close>. The specification gives
  every wallet descriptor a kind, one of Local, Multisig and Hardware; the Hardware ones are
  those \<^verbatim>\<open>connectLedger\<close> builds, marked \<^verbatim>\<open>ledger: true\<close>.
\<close>

definition spec_is_ledger :: "wallet option \<Rightarrow> bool" where
  "spec_is_ledger w = (case w of None \<Rightarrow> False | Some x \<Rightarrow> ledger x)"

text \<open>
  Modelled from the spec: \<^verbatim>\<open>is.multisig\<close> of the absent \<^verbatim>\<open>../scripts/is\<close>. The Multisig descriptors
  are those marked \<^verbatim>\<open>multisig: true\<close>.
\<close>

definition spec_is_multisig :: "wallet \<Rightarrow> bool" where
  "spec_is_multisig x = multisig x"

text \<open>
  Modelled from the spec: \<^verbatim>\<open>is.local\<close> of the absent \<^verbatim>\<open>../scripts/is\<close>. The specification tags
  Local, Multisig and Hardware descriptors distinctly: a descriptor is Local when it is
  neither Hardware nor Multisig, and no descriptor at all is not Local.
\<close>

definition spec_is_local :: "wallet option \<Rightarrow> bool" where
  "spec_is_local w = (case w of None \<Rightarrow> False | Some x \<Rightarrow> \<not> ledger x \<and> \<not> multisig x)"

text \<open>
  Five stored wallets: \<open>A\<close> holds the raw key \<open>hex1\<close> for coin type 330 (the scenario of
  the specification), \<open>B\<close> a raw key for coin type 118 alone, \<open>S\<close> a legacy seed, and \<open>L\<close> and
  \<open>M\<close> are locked records of the older shape; the address of \<open>M\<close> is not a bech32 string.
  \<open>wallet_X\<close> is the wallet \<^verbatim>\<open>connectLedger\<close> builds with its defaults. The one password is
  \<open>correct-pw\<close>.
\<close>

definition wallet_A :: wallet where
  "wallet_A = \<lparr>name = ''A'', address = None, words = [''330'' \<mapsto> ''wordsA''],
                pubkey = Map.empty, ledger = False, multisig = False, index = None,
                bluetooth = False, lock = False\<rparr>"

definition wallet_S :: wallet where
  "wallet_S = \<lparr>name = ''S'', address = None, words = [''330'' \<mapsto> ''wordsS''],
                pubkey = Map.empty, ledger = False, multisig = False, index = None,
                bluetooth = False, lock = False\<rparr>"

definition wallet_L :: wallet where
  "wallet_L = \<lparr>name = ''L'', address = Some ''terra1locked'', words = Map.empty,
                pubkey = Map.empty, ledger = False, multisig = False, index = None,
                bluetooth = False, lock = True\<rparr>"

definition wallet_M :: wallet where
  "wallet_M = \<lparr>name = ''M'', address = Some ''locked-address'', words = Map.empty,
                pubkey = Map.empty, ledger = False, multisig = False, index = None,
                bluetooth = False, lock = True\<rparr>"

definition wallet_B :: wallet where
  "wallet_B = \<lparr>name = ''B'', address = None, words = [''118'' \<mapsto> ''wordsB''],
                pubkey = Map.empty, ledger = False, multisig = False, index = None,
                bluetooth = False, lock = False\<rparr>"

definition wallet_X :: wallet where
  "wallet_X = \<lparr>name = ''Ledger'', address = None, words = [''330'' \<mapsto> ''wordsX''],
                pubkey = [''330'' \<mapsto> ''pubX''], ledger = True, multisig = False,
                index = Some 0, bluetooth = False, lock = False\<rparr>"

definition disconnected :: session where
  "disconnected = \<lparr>walletState = None, localStorage_wallet = None\<rparr>"

definition demo_getStoredWallet :: "string \<Rightarrow> error + wallet" where
  "demo_getStoredWallet nm =
     (if nm = ''A'' then Inr wallet_A
      else if nm = ''B'' then Inr wallet_B
      else if nm = ''S'' then Inr wallet_S
      else if nm = ''L'' then Inr wallet_L
      else if nm = ''M'' then Inr wallet_M
      else Inl (Error ''Wallet does not exist''))"

definition demo_getDecryptedKey :: "string \<Rightarrow> string \<Rightarrow> error + decrypted_key option" where
  "demo_getDecryptedKey nm pw =
     (if pw \<noteq> ''correct-pw'' then Inr None
      else if nm = ''A'' then Inr (Some (RawKeyRecord [''330'' \<mapsto> ''hex1'']))
      else if nm = ''B'' then Inr (Some (RawKeyRecord [''118'' \<mapsto> ''hex2'']))
      else if nm = ''S'' then Inr (Some (SeedRecord ''5eed'' True None))
      else Inr None)"

definition demo_networks :: "string \<rightharpoonup> network" where
  "demo_networks =
     [''phoenix-1'' \<mapsto> \<lparr>coinType = ''330'', prefix = ''terra''\<rparr>,
      ''osmosis-1'' \<mapsto> \<lparr>coinType = ''118'', prefix = ''osmo''\<rparr>,
      ''injective-1'' \<mapsto> \<lparr>coinType = ''60'', prefix = ''inj''\<rparr>,
      ''full-1'' \<mapsto> \<lparr>coinType = ''330'', prefix = ''full''\<rparr>]"

text \<open>
  A decoder that, like bech32 decoding, rejects a string with no separator \<open>1\<close>; the words
  of an address it accepts are the address itself.
\<close>

definition demo_wordsFromAddress :: "string \<Rightarrow> error + string" where
  "demo_wordsFromAddress a =
     (if CHR ''1'' \<in> set a then Inr a else Inl (Error (''No separator character for '' @ a)))"

text \<open>
  A signer whose answer shows the key and the payload it was given: the signature is the
  payload reversed, the recovery id the length of the hex the raw key was decoded from.
\<close>

definition demo_ecdsaSign :: "key \<Rightarrow> bytes \<Rightarrow> error + (bytes option \<times> int)" where
  "demo_ecdsaSign k bs =
     (case k of
        SeedKey b c i \<Rightarrow> Inr (Some bs, 0)
      | RawKey (HexBuffer h) \<Rightarrow> Inr (Some (rev bs), int (length h))
      | LedgerKey t i c \<Rightarrow> Inl (Error ''Unsupported''))"

definition demo_toString :: "bytes \<Rightarrow> string" where
  "demo_toString bs =
     map (\<lambda>b. if b = 1 then CHR ''1'' else if b = 2 then CHR ''2''
              else if b = 3 then CHR ''3'' else CHR ''x'') bs"

definition demo_publicKey :: "key \<Rightarrow> error + string" where
  "demo_publicKey k =
     (case k of
        SeedKey (HexBuffer s) c i \<Rightarrow> Inr (''seedpub-'' @ s)
      | RawKey (HexBuffer h) \<Rightarrow> Inr (''rawpub-'' @ h)
      | LedgerKey t i c \<Rightarrow> Inr (''ledgerpub-'' @ c))"

text \<open>
  A chain that records every submission and rejects the transactions of \<open>full-1\<close> with
  code 5; a signed transaction is the pair of the key and the options it was made from.
\<close>

definition demo_broadcastSync ::
  "key \<times> CreateTxOptions \<Rightarrow> string \<Rightarrow> ((key \<times> CreateTxOptions) \<times> string) list
     \<Rightarrow> (error + int \<times> string) \<times> ((key \<times> CreateTxOptions) \<times> string) list" where
  "demo_broadcastSync stx cid net =
     (Inr (if cid = ''full-1'' then (5, ''out of gas'') else (0, [])), net @ [(stx, cid)])"

definition demo ::
  "(key \<times> SignDoc, key \<times> CreateTxOptions, int \<times> string,
    ((key \<times> CreateTxOptions) \<times> string) list) deps" where
  "demo =
     \<lparr>is_local = spec_is_local,
      is_ledger = spec_is_ledger,
      is_multisig = spec_is_multisig,
      getStoredWallet = demo_getStoredWallet,
      getDecryptedKey = demo_getDecryptedKey,
      testPassword = (\<lambda>nm pw. Inr (JBool (pw = ''correct-pw''))),
      wordsFromAddress = demo_wordsFromAddress,
      networks = demo_networks,
      LedgerKey_create = (\<lambda>t i c. Inr (LedgerKey t i c)),
      createSignatureAmino = (\<lambda>k doc. Inr (k, doc)),
      publicKey_key = demo_publicKey,
      ecdsaSign = demo_ecdsaSign,
      publicKey_toAmino_value = (\<lambda>k. case demo_publicKey k of Inl e \<Rightarrow> None | Inr p \<Rightarrow> Some p),
      toString_base64 = demo_toString,
      accountInfo = (\<lambda>a. Inr (Some \<lparr>getAccountNumber = 7, getSequenceNumber = 1\<rparr>)),
      createAndSignTx = (\<lambda>k opts. Inr (k, opts)),
      broadcastSync = demo_broadcastSync,
      isTxError = (\<lambda>r. fst r \<noteq> 0),
      raw_log = snd\<rparr>"

definition demo_txOptions :: CreateTxOptions where
  "demo_txOptions = \<lparr>chainID = ''phoenix-1'', msgs = [''send''], memo = None, signMode = None\<rparr>"

section \<open>Properties\<close>

subsection \<open>Evaluation of the builtins and of the concrete environment\<close>

lemma parseInt_330: "parseInt ''330'' = Num 330"
  by code_simp

lemma parseInt_118: "parseInt ''118'' = Num 118"
  by code_simp

lemma parseInt_60: "parseInt ''60'' = Num 60"
  by code_simp

lemma falsy_simps:
  "falsy None" "falsy (Some h) = (h = [])"
  by (simp_all add: falsy_def)

lemma demo_not_ledger_S: "\<not> is_ledger demo (Some wallet_S)"
  by (simp add: demo_def spec_is_ledger_def wallet_S_def)

lemma demo_local_S: "is_local demo (Some wallet_S)"
  by (simp add: demo_def spec_is_local_def wallet_S_def)

lemma demo_key_S:
  "getDecryptedKey demo (name wallet_S) ''correct-pw'' = Inr (Some (SeedRecord ''5eed'' True None))"
  by (simp add: demo_def demo_getDecryptedKey_def wallet_S_def)

lemma demo_not_ledger_A: "\<not> is_ledger demo (Some wallet_A)"
  by (simp add: demo_def spec_is_ledger_def wallet_A_def)

lemma demo_local_A: "is_local demo (Some wallet_A)"
  by (simp add: demo_def spec_is_local_def wallet_A_def)

lemma demo_key_A:
  "getDecryptedKey demo (name wallet_A) ''correct-pw'' = Inr (Some (RawKeyRecord [''330'' \<mapsto> ''hex1'']))"
  by (simp add: demo_def demo_getDecryptedKey_def wallet_A_def)

lemma demo_key_A_wrong:
  "getDecryptedKey demo (name wallet_A) ''guess'' = Inr None"
  by (simp add: demo_def demo_getDecryptedKey_def wallet_A_def)

lemma demo_not_ledger_B: "\<not> is_ledger demo (Some wallet_B)"
  by (simp add: demo_def spec_is_ledger_def wallet_B_def)

lemma demo_local_B: "is_local demo (Some wallet_B)"
  by (simp add: demo_def spec_is_local_def wallet_B_def)

lemma demo_key_B:
  "getDecryptedKey demo (name wallet_B) ''correct-pw'' = Inr (Some (RawKeyRecord [''118'' \<mapsto> ''hex2'']))"
  by (simp add: demo_def demo_getDecryptedKey_def wallet_B_def)

lemma demo_ledger_X: "is_ledger demo (Some wallet_X)"
  by (simp add: demo_def spec_is_ledger_def wallet_X_def)

lemma demo_networks_phoenix:
  "networks demo ''phoenix-1'' = Some \<lparr>coinType = ''330'', prefix = ''terra''\<rparr>"
  by (simp add: demo_def demo_networks_def)

lemma demo_networks_injective:
  "networks demo ''injective-1'' = Some \<lparr>coinType = ''60'', prefix = ''inj''\<rparr>"
  by (simp add: demo_def demo_networks_def)

lemma demo_networks_full:
  "networks demo ''full-1'' = Some \<lparr>coinType = ''330'', prefix = ''full''\<rparr>"
  by (simp add: demo_def demo_networks_def)

subsection \<open>What each operation does with each kind of key\<close>

text \<open>
  \<^verbatim>\<open>getKey\<close> goes through \<^verbatim>\<open>getConnectedWallet\<close>: it reaches the key store only for a wallet that
  \<^verbatim>\<open>is.local\<close> accepts.
\<close>

lemma getKey_local:
  "is_local D (Some w) \<Longrightarrow> getKey D (Some w) password = getDecryptedKey D (name w) password"
  by (simp add: getKey_def getConnectedWallet_def connectedWallet_def andThen_def)

lemma createSignature_seed:
  assumes "\<not> is_ledger D (Some w)" and "is_local D (Some w)"
    and "getDecryptedKey D (name w) password = Inr (Some (SeedRecord seed legacy idx))"
    and "networks D cid = Some n" and "accountInfo D addr = Inr (Some info)"
  shows "createSignature D (Some w) tx cid addr password =
         createSignatureAmino D
           (SeedKey (HexBuffer seed) (spec_effective_coin_type legacy (parseInt (coinType n)))
              (or_zero idx))
           (SignDoc cid (getAccountNumber info) (getSequenceNumber info) (auth_info tx) (body tx))"
  using assms
  by (simp add: createSignature_def getKey_local andThen_def Buffer_from_def
      networks_coinType_def spec_effective_coin_type_def)

lemma sign_seed:
  assumes "\<not> is_ledger D (Some w)" and "is_local D (Some w)"
    and "getDecryptedKey D (name w) password = Inr (Some (SeedRecord seed legacy idx))"
    and "networks D (chainID txOptions) = Some n"
  shows "sign D (Some w) txOptions password sm =
         createAndSignTx D
           (SeedKey (HexBuffer seed) (spec_effective_coin_type legacy (parseInt (coinType n)))
              (or_zero idx))
           (txOptions\<lparr>signMode := sm\<rparr>)"
  using assms
  by (simp add: sign_def getKey_local andThen_def Buffer_from_def
      networks_coinType_def spec_effective_coin_type_def)

lemma getPubkey_seed:
  assumes "\<not> is_ledger D (Some w)" and "is_local D (Some w)"
    and "getDecryptedKey D (name w) password = Inr (Some (SeedRecord seed legacy idx))"
  shows "getPubkey D (Some w) ct password =
         publicKey_key D
           (SeedKey (HexBuffer seed) (spec_effective_coin_type legacy (parseInt (coin_tag ct)))
              (or_zero idx))"
  using assms
  by (cases ct)
     (simp_all add: getPubkey_def getKey_local andThen_def Buffer_from_def
        spec_effective_coin_type_def parseInt_330 parseInt_118)

lemma signBytes_seed:
  assumes "\<not> is_ledger D (Some w)" and "is_local D (Some w)"
    and "getDecryptedKey D (name w) password = Inr (Some (SeedRecord seed legacy idx))"
  shows "signBytes D (Some w) bs password =
         ecdsaSign_result D
           (SeedKey (HexBuffer seed) (spec_effective_coin_type legacy (Num 330)) (or_zero idx)) bs"
  using assms
  by (simp add: signBytes_def getKey_local andThen_def Buffer_from_def
      spec_effective_coin_type_def)

lemma getPubkey_raw:
  assumes "\<not> is_ledger D (Some w)" and "is_local D (Some w)"
    and "getDecryptedKey D (name w) password = Inr (Some (RawKeyRecord m))"
  shows "getPubkey D (Some w) ct password =
         (if falsy (m (coin_tag ct)) then Inl (PasswordError ''Incorrect password'')
          else publicKey_key D (RawKey (HexBuffer (or_empty (m (coin_tag ct))))))"
  using assms
  by (simp add: getPubkey_def getKey_local andThen_def Buffer_from_def)

lemma createSignature_raw:
  assumes "\<not> is_ledger D (Some w)" and "is_local D (Some w)"
    and "getDecryptedKey D (name w) password = Inr (Some (RawKeyRecord m))"
    and "networks D cid = Some n" and "accountInfo D addr = Inr (Some info)"
  shows "createSignature D (Some w) tx cid addr password =
         (if falsy (m (coinType n)) then Inl (PasswordError ''Incorrect password'')
          else createSignatureAmino D (RawKey (HexBuffer (or_empty (m (coinType n)))))
            (SignDoc cid (getAccountNumber info) (getSequenceNumber info) (auth_info tx) (body tx)))"
  using assms
  by (simp add: createSignature_def getKey_local andThen_def Buffer_from_def networks_coinType_def)

lemma sign_raw:
  assumes "\<not> is_ledger D (Some w)" and "is_local D (Some w)"
    and "getDecryptedKey D (name w) password = Inr (Some (RawKeyRecord m))"
    and "networks D (chainID txOptions) = Some n"
  shows "sign D (Some w) txOptions password sm =
         (if falsy (m (coinType n)) then Inl (PasswordError ''Incorrect password'')
          else createAndSignTx D (RawKey (HexBuffer (or_empty (m (coinType n))))) txOptions)"
  using assms
  by (simp add: sign_def getKey_local andThen_def Buffer_from_def networks_coinType_def)

lemma signBytes_raw:
  assumes "\<not> is_ledger D (Some w)" and "is_local D (Some w)"
    and "getDecryptedKey D (name w) password = Inr (Some (RawKeyRecord m))"
  shows "signBytes D (Some w) bs password =
         andThen (Buffer_from (m ''330'')) (\<lambda>buf. ecdsaSign_result D (RawKey buf) bs)"
  using assms by (simp add: signBytes_def getKey_local andThen_def)

lemma getPubkey_no_key:
  assumes "\<not> is_ledger D (Some w)" and "is_local D (Some w)"
    and "getDecryptedKey D (name w) password = Inr None"
  shows "getPubkey D (Some w) ct password = Inl (PasswordError ''Incorrect password'')"
  using assms by (simp add: getPubkey_def getKey_local andThen_def)

lemma createSignature_no_key:
  assumes "\<not> is_ledger D (Some w)" and "is_local D (Some w)"
    and "getDecryptedKey D (name w) password = Inr None"
    and "accountInfo D addr = Inr (Some info)"
  shows "createSignature D (Some w) tx cid addr password = Inl (PasswordError ''Incorrect password'')"
  using assms by (simp add: createSignature_def getKey_local andThen_def)

lemma sign_no_key:
  assumes "\<not> is_ledger D (Some w)" and "is_local D (Some w)"
    and "getDecryptedKey D (name w) password = Inr None"
  shows "sign D (Some w) txOptions password sm = Inl (PasswordError ''Incorrect password'')"
  using assms by (simp add: sign_def getKey_local andThen_def)

lemma sign_ledger:
  assumes "is_ledger D (Some w)" and "networks D (chainID txOptions) = Some n"
    and "getLedgerKey D (Some w) (coinType n) = Inr k"
  shows "sign D (Some w) txOptions password sm =
         createAndSignTx D k (txOptions\<lparr>signMode := Some SIGN_MODE_LEGACY_AMINO_JSON\<rparr>)"
  using assms by (simp add: sign_def andThen_def networks_coinType_def)

subsection \<open>The claims\<close>

text \<open>
  Claim C1. For a connected local wallet whose stored key is a seed record, every operation
  builds its seed key with the coin type the specification asks for: with \<open>legacy\<close> set, 118
  when the requested coin type is 330 and the requested coin type otherwise.
  \<^verbatim>\<open>createSignature\<close> and \<^verbatim>\<open>sign\<close> request the coin type of the chain, \<^verbatim>\<open>getPubkey\<close> the one of
  its argument, and \<^verbatim>\<open>signBytes\<close> always the default 330. In \<^verbatim>\<open>getPubkey\<close> the source writes
  \<^verbatim>\<open>pk.legacy ? 118 : parseInt(coinType)\<close>; this is the same coin type because the argument is
  one of \<^verbatim>\<open>"330"\<close> and \<^verbatim>\<open>"118"\<close>.
\<close>

theorem seed_effective_coin_type:
  assumes "\<not> is_ledger D (Some w)" and "is_local D (Some w)"
    and "getDecryptedKey D (name w) password = Inr (Some (SeedRecord seed legacy idx))"
  shows
    "(\<forall>n info. networks D cid = Some n \<and> accountInfo D addr = Inr (Some info) \<longrightarrow>
        createSignature D (Some w) tx cid addr password =
        createSignatureAmino D
          (SeedKey (HexBuffer seed) (spec_effective_coin_type legacy (parseInt (coinType n)))
             (or_zero idx))
          (SignDoc cid (getAccountNumber info) (getSequenceNumber info) (auth_info tx) (body tx)))
     \<and> (\<forall>n. networks D (chainID txOptions) = Some n \<longrightarrow>
        sign D (Some w) txOptions password sm =
        createAndSignTx D
          (SeedKey (HexBuffer seed) (spec_effective_coin_type legacy (parseInt (coinType n)))
             (or_zero idx))
          (txOptions\<lparr>signMode := sm\<rparr>))
     \<and> getPubkey D (Some w) ct password =
        publicKey_key D
          (SeedKey (HexBuffer seed) (spec_effective_coin_type legacy (parseInt (coin_tag ct)))
             (or_zero idx))
     \<and> signBytes D (Some w) bs password =
        ecdsaSign_result D
          (SeedKey (HexBuffer seed) (spec_effective_coin_type legacy (Num 330)) (or_zero idx)) bs
     \<and> spec_effective_coin_type True (Num 330) = Num 118
     \<and> (\<forall>r. r \<noteq> Num 330 \<longrightarrow> spec_effective_coin_type True r = r)"
proof (intro conjI allI impI)
  fix n info
  assume "networks D cid = Some n \<and> accountInfo D addr = Inr (Some info)"
  then show "createSignature D (Some w) tx cid addr password =
        createSignatureAmino D
          (SeedKey (HexBuffer seed) (spec_effective_coin_type legacy (parseInt (coinType n)))
             (or_zero idx))
          (SignDoc cid (getAccountNumber info) (getSequenceNumber info) (auth_info tx) (body tx))"
    using assms by (simp add: createSignature_seed)
next
  fix n
  assume "networks D (chainID txOptions) = Some n"
  then show "sign D (Some w) txOptions password sm =
        createAndSignTx D
          (SeedKey (HexBuffer seed) (spec_effective_coin_type legacy (parseInt (coinType n)))
             (or_zero idx))
          (txOptions\<lparr>signMode := sm\<rparr>)"
    using assms by (simp add: sign_seed)
next
  show "getPubkey D (Some w) ct password =
        publicKey_key D
          (SeedKey (HexBuffer seed) (spec_effective_coin_type legacy (parseInt (coin_tag ct)))
             (or_zero idx))"
    using assms by (rule getPubkey_seed)
next
  show "signBytes D (Some w) bs password =
        ecdsaSign_result D
          (SeedKey (HexBuffer seed) (spec_effective_coin_type legacy (Num 330)) (or_zero idx)) bs"
    using assms by (rule signBytes_seed)
next
  show "spec_effective_coin_type True (Num 330) = Num 118"
    by (simp add: spec_effective_coin_type_def)
next
  fix r
  assume "r \<noteq> Num 330"
  then show "spec_effective_coin_type True r = r"
    by (simp add: spec_effective_coin_type_def)
qed

theorem seed_effective_coin_type_witness:
  "\<not> is_ledger demo (Some wallet_S) \<and> is_local demo (Some wallet_S) \<and>
   getDecryptedKey demo (name wallet_S) ''correct-pw'' = Inr (Some (SeedRecord ''5eed'' True None)) \<and>
   sign demo (Some wallet_S) demo_txOptions ''correct-pw'' None =
     Inr (SeedKey (HexBuffer ''5eed'') (Num 118) 0, demo_txOptions\<lparr>signMode := None\<rparr>) \<and>
   sign demo (Some wallet_S) (demo_txOptions\<lparr>chainID := ''injective-1''\<rparr>) ''correct-pw'' None =
     Inr (SeedKey (HexBuffer ''5eed'') (Num 60) 0,
          demo_txOptions\<lparr>chainID := ''injective-1'', signMode := None\<rparr>) \<and>
   getPubkey demo (Some wallet_S) CT330 ''correct-pw'' = Inr ''seedpub-5eed''"
proof -
  note T = seed_effective_coin_type [OF demo_not_ledger_S demo_local_S demo_key_S]
  have n1: "networks demo (chainID demo_txOptions) = Some \<lparr>coinType = ''330'', prefix = ''terra''\<rparr>"
    by (simp add: demo_txOptions_def demo_networks_phoenix)
  have n2: "networks demo (chainID (demo_txOptions\<lparr>chainID := ''injective-1''\<rparr>))
              = Some \<lparr>coinType = ''60'', prefix = ''inj''\<rparr>"
    by (simp add: demo_networks_injective)
  have s1: "sign demo (Some wallet_S) demo_txOptions ''correct-pw'' None =
     Inr (SeedKey (HexBuffer ''5eed'') (Num 118) 0, demo_txOptions\<lparr>signMode := None\<rparr>)"
    using T [where txOptions = demo_txOptions and sm = None] n1
    by (simp add: parseInt_330 spec_effective_coin_type_def or_zero_def demo_def)
  have s2: "sign demo (Some wallet_S) (demo_txOptions\<lparr>chainID := ''injective-1''\<rparr>) ''correct-pw'' None =
     Inr (SeedKey (HexBuffer ''5eed'') (Num 60) 0,
          demo_txOptions\<lparr>chainID := ''injective-1'', signMode := None\<rparr>)"
    using T [where txOptions = "demo_txOptions\<lparr>chainID := ''injective-1''\<rparr>" and sm = None] n2
    by (simp add: parseInt_60 spec_effective_coin_type_def or_zero_def demo_def)
  have s3: "getPubkey demo (Some wallet_S) CT330 ''correct-pw'' = Inr ''seedpub-5eed''"
    using T [where ct = CT330]
    by (simp add: parseInt_330 spec_effective_coin_type_def or_zero_def demo_def demo_publicKey_def)
  show ?thesis
    using demo_not_ledger_S demo_local_S demo_key_S s1 s2 s3 by simp
qed




text \<open>
  Claim C3. For a connected local wallet whose stored key is a table of raw keys,
  \<^verbatim>\<open>getPubkey\<close>, \<^verbatim>\<open>createSignature\<close> and \<^verbatim>\<open>sign\<close> use the private key stored under the requested
  coin type when there is one, and throw \<^verbatim>\<open>PasswordError("Incorrect password")\<close> when there is
  none: the very error they throw when the key store yields no key for the password. The
  source tests the entry with \<^verbatim>\<open>!pk[coinType]\<close>, so an entry is a hex string that is not empty.
\<close>

theorem raw_key_resolution:
  assumes "\<not> is_ledger D (Some w)" and "is_local D (Some w)"
    and "getDecryptedKey D (name w) password = Inr (Some (RawKeyRecord m))"
    and "getDecryptedKey D (name w) wrong = Inr None"
  shows
    "(\<forall>h. m (coin_tag ct) = Some h \<and> h \<noteq> [] \<longrightarrow>
        getPubkey D (Some w) ct password = publicKey_key D (RawKey (HexBuffer h)))
     \<and> (falsy (m (coin_tag ct)) \<longrightarrow>
        getPubkey D (Some w) ct password = Inl (PasswordError ''Incorrect password''))
     \<and> getPubkey D (Some w) ct wrong = Inl (PasswordError ''Incorrect password'')
     \<and> (\<forall>n info. networks D cid = Some n \<and> accountInfo D addr = Inr (Some info) \<longrightarrow>
          (\<forall>h. m (coinType n) = Some h \<and> h \<noteq> [] \<longrightarrow>
             createSignature D (Some w) tx cid addr password =
             createSignatureAmino D (RawKey (HexBuffer h))
               (SignDoc cid (getAccountNumber info) (getSequenceNumber info)
                  (auth_info tx) (body tx)))
          \<and> (falsy (m (coinType n)) \<longrightarrow>
             createSignature D (Some w) tx cid addr password =
             Inl (PasswordError ''Incorrect password''))
          \<and> createSignature D (Some w) tx cid addr wrong =
             Inl (PasswordError ''Incorrect password''))
     \<and> (\<forall>n. networks D (chainID txOptions) = Some n \<longrightarrow>
          (\<forall>h. m (coinType n) = Some h \<and> h \<noteq> [] \<longrightarrow>
             sign D (Some w) txOptions password sm =
             createAndSignTx D (RawKey (HexBuffer h)) txOptions)
          \<and> (falsy (m (coinType n)) \<longrightarrow>
             sign D (Some w) txOptions password sm =
             Inl (PasswordError ''Incorrect password''))
          \<and> sign D (Some w) txOptions wrong sm = Inl (PasswordError ''Incorrect password''))"
proof -
  note nl = assms(1) and loc = assms(2) and pk = assms(3) and bad = assms(4)
  have p: "getPubkey D (Some w) ct password =
         (if falsy (m (coin_tag ct)) then Inl (PasswordError ''Incorrect password'')
          else publicKey_key D (RawKey (HexBuffer (or_empty (m (coin_tag ct))))))"
    by (rule getPubkey_raw [OF nl loc pk])
  have p': "getPubkey D (Some w) ct wrong = Inl (PasswordError ''Incorrect password'')"
    by (rule getPubkey_no_key [OF nl loc bad])
  have c: "createSignature D (Some w) tx cid addr password =
         (if falsy (m (coinType n)) then Inl (PasswordError ''Incorrect password'')
          else createSignatureAmino D (RawKey (HexBuffer (or_empty (m (coinType n)))))
            (SignDoc cid (getAccountNumber info) (getSequenceNumber info) (auth_info tx) (body tx)))"
    if "networks D cid = Some n" and "accountInfo D addr = Inr (Some info)" for n info
    by (rule createSignature_raw [OF nl loc pk that])
  have c': "createSignature D (Some w) tx cid addr wrong = Inl (PasswordError ''Incorrect password'')"
    if "accountInfo D addr = Inr (Some info)" for info
    by (rule createSignature_no_key [OF nl loc bad that])
  have s: "sign D (Some w) txOptions password sm =
         (if falsy (m (coinType n)) then Inl (PasswordError ''Incorrect password'')
          else createAndSignTx D (RawKey (HexBuffer (or_empty (m (coinType n))))) txOptions)"
    if "networks D (chainID txOptions) = Some n" for n
    by (rule sign_raw [OF nl loc pk that])
  have s': "sign D (Some w) txOptions wrong sm = Inl (PasswordError ''Incorrect password'')"
    by (rule sign_no_key [OF nl loc bad])
  show ?thesis
    using p p' c c' s s' by (simp add: falsy_simps or_empty_def)
qed

theorem raw_key_resolution_witness:
  "\<not> is_ledger demo (Some wallet_A) \<and> is_local demo (Some wallet_A) \<and>
   getDecryptedKey demo (name wallet_A) ''correct-pw'' = Inr (Some (RawKeyRecord [''330'' \<mapsto> ''hex1''])) \<and>
   getDecryptedKey demo (name wallet_A) ''guess'' = Inr None \<and>
   getPubkey demo (Some wallet_A) CT330 ''correct-pw'' = publicKey_key demo (RawKey (HexBuffer ''hex1'')) \<and>
   getPubkey demo (Some wallet_A) CT118 ''correct-pw'' = Inl (PasswordError ''Incorrect password'') \<and>
   getPubkey demo (Some wallet_A) CT118 ''correct-pw'' = getPubkey demo (Some wallet_A) CT330 ''guess''"
proof -
  note T = raw_key_resolution [OF demo_not_ledger_A demo_local_A demo_key_A demo_key_A_wrong]
  have a: "getPubkey demo (Some wallet_A) CT330 ''correct-pw'' = publicKey_key demo (RawKey (HexBuffer ''hex1''))"
    using T [where ct = CT330] by simp
  have b: "getPubkey demo (Some wallet_A) CT118 ''correct-pw'' = Inl (PasswordError ''Incorrect password'')"
    using T [where ct = CT118] by (simp add: falsy_simps)
  have c: "getPubkey demo (Some wallet_A) CT330 ''guess'' = Inl (PasswordError ''Incorrect password'')"
    using T [where ct = CT330] by simp
  show ?thesis
    using demo_not_ledger_A demo_local_A demo_key_A demo_key_A_wrong a b c by simp
qed

text \<open>
  Claim C4. With a ledger wallet connected, \<^verbatim>\<open>signBytes\<close> throws
  \<open>Ledger can not sign arbitrary data\<close> for every payload and password, whatever the key
  store and the key operations would have answered: neither is consulted.
\<close>

theorem signBytes_ledger:
  "is_ledger D (Some wl) \<Longrightarrow>
   signBytes D (Some wl) bs password = Inl (Error ''Ledger can not sign arbitrary data'') \<and>
   signBytes (D\<lparr>getDecryptedKey := g, testPassword := t, ecdsaSign := e\<rparr>) (Some wl) bs password
     = Inl (Error ''Ledger can not sign arbitrary data'')"
  by (simp add: signBytes_def)

theorem signBytes_ledger_witness:
  "is_ledger demo (Some wallet_X) \<and>
   signBytes demo (Some wallet_X) [1, 2, 3] [] = Inl (Error ''Ledger can not sign arbitrary data'')"
  using signBytes_ledger [OF demo_ledger_X, where bs = "[1, 2, 3]" and password = "[]"] demo_ledger_X
  by simp

text \<open>
  Claim C5, as amended. \<^verbatim>\<open>getConnectedWallet\<close> returns the session wallet exactly when there
  is one and \<^verbatim>\<open>is.local\<close> accepts it; with no wallet, or with one that \<^verbatim>\<open>is.local\<close> rejects, it
  throws \<open>Wallet is not defined\<close>.
\<close>

theorem getConnectedWallet_gate:
  "getConnectedWallet D w =
     (case w of
        None \<Rightarrow> Inl (Error ''Wallet is not defined'')
      | Some c \<Rightarrow> if is_local D w then Inr c else Inl (Error ''Wallet is not defined''))"
  by (simp add: getConnectedWallet_def connectedWallet_def split: option.splits)

text \<open>
  Claim C5 as stated fails: after \<^verbatim>\<open>connectLedger\<close> a wallet is connected, and
  \<^verbatim>\<open>getConnectedWallet\<close> throws \<open>Wallet is not defined\<close>, a hardware wallet not being local.
\<close>

theorem getConnected_ledger_counterexample:
  "walletState (snd (connectLedger [''330'' \<mapsto> ''wordsX''] [''330'' \<mapsto> ''pubX''] 0 False ''Ledger'' disconnected)) \<noteq> None \<and>
   getConnectedWallet demo
     (walletState (snd (connectLedger [''330'' \<mapsto> ''wordsX''] [''330'' \<mapsto> ''pubX''] 0 False ''Ledger'' disconnected)))
   = Inl (Error ''Wallet is not defined'')"
  by (simp add: connectLedger_def getConnectedWallet_def connectedWallet_def demo_def spec_is_local_def Let_def)

text \<open>
  Claim C6. \<^verbatim>\<open>sign\<close> forces the legacy amino mode for a ledger key and hands the caller's
  sign mode on for a seed key, but for a raw key it calls \<^verbatim>\<open>createAndSignTx(txOptions)\<close> and the
  caller's sign mode is lost. Wallet \<open>A\<close> (raw key) and wallet \<open>S\<close> (seed), same options, same
  sign mode \<^verbatim>\<open>SIGN_MODE_DIRECT\<close>: the options that reach \<^verbatim>\<open>createAndSignTx\<close> carry no sign mode
  for \<open>A\<close> and \<^verbatim>\<open>SIGN_MODE_DIRECT\<close> for \<open>S\<close>.
\<close>

theorem sign_raw_key_signMode_dropped:
  "sign demo (Some wallet_A) demo_txOptions ''correct-pw'' (Some SIGN_MODE_DIRECT)
     = Inr (RawKey (HexBuffer ''hex1''), demo_txOptions) \<and>
   signMode demo_txOptions = None \<and>
   sign demo (Some wallet_S) demo_txOptions ''correct-pw'' (Some SIGN_MODE_DIRECT)
     = Inr (SeedKey (HexBuffer ''5eed'') (Num 118) 0,
            demo_txOptions\<lparr>signMode := Some SIGN_MODE_DIRECT\<rparr>)"
proof -
  have n1: "networks demo (chainID demo_txOptions) = Some \<lparr>coinType = ''330'', prefix = ''terra''\<rparr>"
    by (simp add: demo_txOptions_def demo_networks_phoenix)
  have a: "sign demo (Some wallet_A) demo_txOptions ''correct-pw'' (Some SIGN_MODE_DIRECT)
     = Inr (RawKey (HexBuffer ''hex1''), demo_txOptions)"
    using sign_raw [OF demo_not_ledger_A demo_local_A demo_key_A n1]
    by (simp add: falsy_simps or_empty_def demo_def)
  have b: "signMode demo_txOptions = None"
    by (simp add: demo_txOptions_def)
  have c: "sign demo (Some wallet_S) demo_txOptions ''correct-pw'' (Some SIGN_MODE_DIRECT)
     = Inr (SeedKey (HexBuffer ''5eed'') (Num 118) 0,
            demo_txOptions\<lparr>signMode := Some SIGN_MODE_DIRECT\<rparr>)"
    using sign_seed [OF demo_not_ledger_S demo_local_S demo_key_S n1]
    by (simp add: parseInt_330 spec_effective_coin_type_def or_zero_def demo_def)
  show ?thesis using a b c by simp
qed

text \<open>
  Claim C7. \<^verbatim>\<open>post\<close> throws \<open>Wallet is not defined\<close> with no wallet; when \<^verbatim>\<open>sign\<close> throws it
  throws the same and the chain is left as it was; otherwise the chain is in the state one
  \<^verbatim>\<open>broadcastSync\<close> of the signed transaction leaves it in, and the outcome is the error of
  that call, or \<^verbatim>\<open>Error(raw_log)\<close> when its result is a transaction error, or its result.
\<close>

theorem post_broadcast_once:
  "post D None txOptions password sm net = (Inl (Error ''Wallet is not defined''), net)
   \<and> (\<forall>e. sign D (Some w) txOptions password sm = Inl e \<longrightarrow>
        post D (Some w) txOptions password sm net = (Inl e, net))
   \<and> (\<forall>signedTx r net'.
        sign D (Some w) txOptions password sm = Inr signedTx \<and>
        broadcastSync D signedTx (chainID txOptions) net = (r, net') \<longrightarrow>
        post D (Some w) txOptions password sm net =
          (case r of
             Inl e \<Rightarrow> Inl e
           | Inr result \<Rightarrow>
               if isTxError D result then Inl (Error (raw_log D result)) else Inr result,
           net'))"
  by (auto simp add: post_def split: sum.splits)

theorem post_broadcast_once_witness:
  "sign demo (Some wallet_A) (demo_txOptions\<lparr>chainID := ''full-1''\<rparr>) ''correct-pw'' None
     = Inr (RawKey (HexBuffer ''hex1''), demo_txOptions\<lparr>chainID := ''full-1''\<rparr>) \<and>
   broadcastSync demo (RawKey (HexBuffer ''hex1''), demo_txOptions\<lparr>chainID := ''full-1''\<rparr>)
       (chainID (demo_txOptions\<lparr>chainID := ''full-1''\<rparr>)) []
     = (Inr (5, ''out of gas''),
        [((RawKey (HexBuffer ''hex1''), demo_txOptions\<lparr>chainID := ''full-1''\<rparr>), ''full-1'')]) \<and>
   post demo (Some wallet_A) (demo_txOptions\<lparr>chainID := ''full-1''\<rparr>) ''correct-pw'' None []
     = (Inl (Error ''out of gas''),
        [((RawKey (HexBuffer ''hex1''), demo_txOptions\<lparr>chainID := ''full-1''\<rparr>), ''full-1'')])"
proof -
  let ?opts = "demo_txOptions\<lparr>chainID := ''full-1''\<rparr>"
  let ?stx = "(RawKey (HexBuffer ''hex1''), ?opts)"
  have n: "networks demo (chainID ?opts) = Some \<lparr>coinType = ''330'', prefix = ''full''\<rparr>"
    by (simp add: demo_networks_full)
  have s: "sign demo (Some wallet_A) ?opts ''correct-pw'' None = Inr ?stx"
    using sign_raw [OF demo_not_ledger_A demo_local_A demo_key_A n]
    by (simp add: falsy_simps or_empty_def demo_def)
  have b: "broadcastSync demo ?stx (chainID ?opts) [] = (Inr (5, ''out of gas''), [(?stx, ''full-1'')])"
    by (simp add: demo_def demo_broadcastSync_def)
  have e: "isTxError demo (5, ''out of gas'')" "raw_log demo (5, ''out of gas'') = ''out of gas''"
    by (simp_all add: demo_def)
  have p: "post demo (Some wallet_A) ?opts ''correct-pw'' None []
             = (Inl (Error ''out of gas''), [(?stx, ''full-1'')])"
    using post_broadcast_once [where D = demo and w = wallet_A and txOptions = ?opts
        and password = "''correct-pw''" and sm = None and net = "[]"] s b e
    by simp
  show ?thesis using s b p by simp
qed

text \<open>
  Claim C9. For a raw-key wallet \<^verbatim>\<open>signBytes\<close> hands the payload and \<^verbatim>\<open>RawKey\<close> of the entry
  stored under \<^verbatim>\<open>"330"\<close> to \<^verbatim>\<open>ecdsaSign\<close>, whatever that entry is (the empty string too) and
  whatever else the table holds, and returns the recovery id, the signature in base 64 and
  the public key of that key. With no such entry \<^verbatim>\<open>Buffer.from(undefined, "hex")\<close> throws a
  \<^verbatim>\<open>TypeError\<close>, not a \<^verbatim>\<open>PasswordError\<close>, and the signer is not reached; \<^verbatim>\<open>getPubkey\<close> for coin
  type 330 throws \<^verbatim>\<open>PasswordError("Incorrect password")\<close> on a missing or empty entry.
\<close>

theorem signBytes_raw_330:
  assumes "\<not> is_ledger D (Some w)" and "is_local D (Some w)"
    and "getDecryptedKey D (name w) password = Inr (Some (RawKeyRecord m))"
  shows
    "(\<forall>h. m ''330'' = Some h \<longrightarrow>
        signBytes D (Some w) bs password =
          (case ecdsaSign D (RawKey (HexBuffer h)) bs of
             Inl e \<Rightarrow> Inl e
           | Inr (None, r) \<Rightarrow> Inl (Error ''Signature is undefined'')
           | Inr (Some sb, r) \<Rightarrow>
               Inr \<lparr>recid = r, signature = toString_base64 D sb,
                    public_key = publicKey_toAmino_value D (RawKey (HexBuffer h))\<rparr>))
     \<and> (m ''330'' = None \<longrightarrow>
        (\<exists>msg. signBytes D (Some w) bs password = Inl (TypeError msg)) \<and>
        (\<forall>msg. signBytes D (Some w) bs password \<noteq> Inl (PasswordError msg)) \<and>
        (\<forall>e. signBytes (D\<lparr>ecdsaSign := e\<rparr>) (Some w) bs password
               = signBytes D (Some w) bs password))
     \<and> (falsy (m ''330'') \<longrightarrow>
        getPubkey D (Some w) CT330 password = Inl (PasswordError ''Incorrect password''))"
proof -
  have s: "signBytes D' (Some w) bs password =
           andThen (Buffer_from (m ''330'')) (\<lambda>buf. ecdsaSign_result D' (RawKey buf) bs)"
    if "\<not> is_ledger D' (Some w)" and "is_local D' (Some w)"
      and "getDecryptedKey D' (name w) password = Inr (Some (RawKeyRecord m))"
    for D' :: "('a, 'b, 'c, 'd) deps"
    by (rule signBytes_raw [OF that])
  have p: "getPubkey D (Some w) CT330 password =
         (if falsy (m (coin_tag CT330)) then Inl (PasswordError ''Incorrect password'')
          else publicKey_key D (RawKey (HexBuffer (or_empty (m (coin_tag CT330))))))"
    by (rule getPubkey_raw [OF assms])
  have s0: "signBytes D (Some w) bs password =
           andThen (Buffer_from (m ''330'')) (\<lambda>buf. ecdsaSign_result D (RawKey buf) bs)"
    by (rule s [OF assms])
  have s1: "signBytes (D\<lparr>ecdsaSign := e\<rparr>) (Some w) bs password =
           andThen (Buffer_from (m ''330''))
             (\<lambda>buf. ecdsaSign_result (D\<lparr>ecdsaSign := e\<rparr>) (RawKey buf) bs)" for e
    using assms by (intro s) simp_all
  have one: "\<forall>h. m ''330'' = Some h \<longrightarrow>
        signBytes D (Some w) bs password =
          (case ecdsaSign D (RawKey (HexBuffer h)) bs of
             Inl e \<Rightarrow> Inl e
           | Inr (None, r) \<Rightarrow> Inl (Error ''Signature is undefined'')
           | Inr (Some sb, r) \<Rightarrow>
               Inr \<lparr>recid = r, signature = toString_base64 D sb,
                    public_key = publicKey_toAmino_value D (RawKey (HexBuffer h))\<rparr>)"
    using s0
    by (auto simp add: andThen_def Buffer_from_def ecdsaSign_result_def
        split: sum.splits option.splits prod.splits)
  have two: "m ''330'' = None \<longrightarrow>
        (\<exists>msg. signBytes D (Some w) bs password = Inl (TypeError msg)) \<and>
        (\<forall>msg. signBytes D (Some w) bs password \<noteq> Inl (PasswordError msg)) \<and>
        (\<forall>e. signBytes (D\<lparr>ecdsaSign := e\<rparr>) (Some w) bs password
               = signBytes D (Some w) bs password)"
    using s0 s1 by (simp add: andThen_def Buffer_from_def)
  have three: "falsy (m ''330'') \<longrightarrow>
        getPubkey D (Some w) CT330 password = Inl (PasswordError ''Incorrect password'')"
    using p by simp
  show ?thesis
    by (intro conjI one two three)
qed

theorem signBytes_raw_330_witness:
  "\<not> is_ledger demo (Some wallet_A) \<and> is_local demo (Some wallet_A) \<and>
   getDecryptedKey demo (name wallet_A) ''correct-pw''
     = Inr (Some (RawKeyRecord [''330'' \<mapsto> ''hex1''])) \<and>
   signBytes demo (Some wallet_A) [1, 2, 3] ''correct-pw''
     = Inr \<lparr>recid = 4, signature = ''321'', public_key = Some ''rawpub-hex1''\<rparr> \<and>
   signBytes demo (Some wallet_A) [3, 3] ''correct-pw''
     = Inr \<lparr>recid = 4, signature = ''33'', public_key = Some ''rawpub-hex1''\<rparr> \<and>
   \<not> is_ledger demo (Some wallet_B) \<and> is_local demo (Some wallet_B) \<and>
   getDecryptedKey demo (name wallet_B) ''correct-pw''
     = Inr (Some (RawKeyRecord [''118'' \<mapsto> ''hex2''])) \<and>
   signBytes demo (Some wallet_B) [1, 2, 3] ''correct-pw''
     \<noteq> Inl (PasswordError ''Incorrect password'') \<and>
   getPubkey demo (Some wallet_B) CT330 ''correct-pw'' = Inl (PasswordError ''Incorrect password'')"
proof -
  note TA = signBytes_raw_330 [OF demo_not_ledger_A demo_local_A demo_key_A]
  note TB = signBytes_raw_330 [OF demo_not_ledger_B demo_local_B demo_key_B]
  have h: "[''330'' \<mapsto> ''hex1''] ''330'' = Some ''hex1''"
    by simp
  have nb: "[''118'' \<mapsto> ''hex2''] ''330'' = None"
    by simp
  have a: "signBytes demo (Some wallet_A) [1, 2, 3] ''correct-pw''
     = Inr \<lparr>recid = 4, signature = ''321'', public_key = Some ''rawpub-hex1''\<rparr>"
    using TA [where bs = "[1, 2, 3]", THEN conjunct1, rule_format, OF h]
    by (simp add: demo_def demo_ecdsaSign_def demo_toString_def demo_publicKey_def)
  have a': "signBytes demo (Some wallet_A) [3, 3] ''correct-pw''
     = Inr \<lparr>recid = 4, signature = ''33'', public_key = Some ''rawpub-hex1''\<rparr>"
    using TA [where bs = "[3, 3]", THEN conjunct1, rule_format, OF h]
    by (simp add: demo_def demo_ecdsaSign_def demo_toString_def demo_publicKey_def)
  have b: "signBytes demo (Some wallet_B) [1, 2, 3] ''correct-pw''
     \<noteq> Inl (PasswordError ''Incorrect password'')"
    using TB [where bs = "[1, 2, 3]", THEN conjunct2, THEN conjunct1, rule_format, OF nb]
    by simp
  have c: "getPubkey demo (Some wallet_B) CT330 ''correct-pw'' = Inl (PasswordError ''Incorrect password'')"
    using TB [where bs = "[1, 2, 3]", THEN conjunct2, THEN conjunct2] nb
    by (simp add: falsy_simps)
  show ?thesis
    by (intro conjI demo_not_ledger_A demo_local_A demo_key_A a a'
          demo_not_ledger_B demo_local_B demo_key_B b c)
qed

text \<open>
  Claim C10. \<^verbatim>\<open>validatePassword\<close> always returns a value. It returns the string
  \<open>Incorrect password\<close> when \<^verbatim>\<open>getConnectedWallet\<close> throws (in particular with no wallet) and
  when \<^verbatim>\<open>testPassword\<close> throws; it returns the result of \<^verbatim>\<open>testPassword\<close> for the connected
  wallet otherwise; and any other value it returns is that result for a connected wallet.
\<close>

theorem validatePassword_total:
  "(\<exists>v. validatePassword D w password = Inr v) \<and>
   (\<forall>e. getConnectedWallet D w = Inl e \<longrightarrow>
      validatePassword D w password = Inr (JString ''Incorrect password'')) \<and>
   (w = None \<longrightarrow> validatePassword D w password = Inr (JString ''Incorrect password'')) \<and>
   (\<forall>c e. getConnectedWallet D w = Inr c \<and> testPassword D (name c) password = Inl e \<longrightarrow>
      validatePassword D w password = Inr (JString ''Incorrect password'')) \<and>
   (\<forall>c v. getConnectedWallet D w = Inr c \<and> testPassword D (name c) password = Inr v \<longrightarrow>
      validatePassword D w password = Inr v) \<and>
   (\<forall>v. validatePassword D w password = Inr v \<and> v \<noteq> JString ''Incorrect password'' \<longrightarrow>
      (\<exists>c. w = Some c \<and> getConnectedWallet D w = Inr c \<and> testPassword D (name c) password = Inr v))"
  by (auto simp add: validatePassword_def andThen_def getConnectedWallet_def connectedWallet_def
      split: sum.splits option.splits if_splits)

theorem validatePassword_total_witness:
  "validatePassword demo None ''correct-pw'' = Inr (JString ''Incorrect password'') \<and>
   getConnectedWallet demo (Some wallet_X) = Inl (Error ''Wallet is not defined'') \<and>
   validatePassword demo (Some wallet_X) ''correct-pw'' = Inr (JString ''Incorrect password'') \<and>
   getConnectedWallet demo (Some wallet_A) = Inr wallet_A \<and>
   testPassword demo (name wallet_A) ''correct-pw'' = Inr (JBool True) \<and>
   validatePassword demo (Some wallet_A) ''correct-pw'' = Inr (JBool True)"
proof -
  have x: "getConnectedWallet demo (Some wallet_X) = Inl (Error ''Wallet is not defined'')"
    by (simp add: getConnectedWallet_def connectedWallet_def demo_def spec_is_local_def wallet_X_def)
  have g: "getConnectedWallet demo (Some wallet_A) = Inr wallet_A"
    using demo_local_A by (simp add: getConnectedWallet_def connectedWallet_def)
  have t: "testPassword demo (name wallet_A) ''correct-pw'' = Inr (JBool True)"
    by (simp add: demo_def)
  note T0 = validatePassword_total [where D = demo and w = None and password = "''correct-pw''"]
  note TX = validatePassword_total [where D = demo and w = "Some wallet_X" and password = "''correct-pw''"]
  note TA = validatePassword_total [where D = demo and w = "Some wallet_A" and password = "''correct-pw''"]
  have a: "validatePassword demo None ''correct-pw'' = Inr (JString ''Incorrect password'')"
    by (rule T0 [THEN conjunct2, THEN conjunct2, THEN conjunct1, rule_format]) (rule refl)
  have b: "validatePassword demo (Some wallet_X) ''correct-pw'' = Inr (JString ''Incorrect password'')"
    by (rule TX [THEN conjunct2, THEN conjunct1, rule_format]) (rule x)
  have c: "validatePassword demo (Some wallet_A) ''correct-pw'' = Inr (JBool True)"
    by (rule TA [THEN conjunct2, THEN conjunct2, THEN conjunct2, THEN conjunct2, THEN conjunct1,
          rule_format]) (rule conjI [OF g t])
  show ?thesis
    by (intro conjI a b c x g t)
qed

end
